theory Spec2Isabelle
  imports Main "HOL-Library.Word"
begin

section \<open>Server-side RPC dispatch and forwarding core (nomad/rpc.go)\<close>

text \<open>
  The Go code talks to its collaborators (the network connection, the consensus layer,
  the clock, the random source, the connection pool, the loggers and the metric sink)
  through calls. In this embedding every answer a collaborator gives is an input of the
  model, and every call the code makes on a collaborator is an \<open>event\<close> appended to
  the trace the model returns, in program order.
\<close>

subsection \<open>Common data\<close>

type_synonym byte = "8 word"

text \<open>\<open>time.Duration\<close>: a count of nanoseconds. \<open>time.Time\<close>: nanoseconds on the
  monotonic clock. The values of this file stay far inside 64 bits.\<close>

type_synonym duration = int
type_synonym time = int

definition Second :: duration where
  "Second = 1000000000"

text \<open>The constants of rpc.go, lines 29 to 46.\<close>

definition maxQueryTime :: duration where
  "maxQueryTime = 300 * Second"

definition defaultQueryTime :: duration where
  "defaultQueryTime = 300 * Second"

definition raftWarnSize :: nat where
  "raftWarnSize = 1024 * 1024"

definition enqueueLimit :: duration where
  "enqueueLimit = 30 * Second"

text \<open>Errors are values. \<open>ErrNoLeader\<close> and \<open>ErrNoRegionPath\<close> are the sentinel errors
  of package structs; every other error is its message.\<close>

datatype error = ErrNoLeader | ErrNoRegionPath | ErrMsg string

datatype level = LvlError | LvlWarn | LvlInfo

text \<open>\<open>serverParts\<close>: the fields of a peer record that rpc.go reads.\<close>

record serverParts =
  Addr :: string
  MajorVersion :: int

text \<open>\<open>RPCContext\<close> (lines 61 to 77). The \<open>Conn\<close> field is the connection the
  functions below receive as their own argument; \<open>Session\<close> is set or nil.\<close>

type_synonym certificate = nat

record RPCContext =
  Session :: bool
  TLS :: bool
  VerifiedChains :: "certificate list list"
  NodeID :: string

datatype handler = Handler string

text \<open>A watch set of go-memdb is a set of channels; the nil watch set is \<open>None\<close>.\<close>

datatype chan = AbandonCh | WatchCh nat

type_synonym watchSet = "chan list option"

datatype event =
    Log level string
  | IncrCounter "string list"
  | ConnClose
  | SetupRpcServer RPCContext
  | HandleNomadConn
  | RemoveNodeConn RPCContext
  | RaftHandoff
  | HandleMultiplex RPCContext
  | HandleMultiplexV2 RPCContext
  | EncodeAck string
  | InvokeHandler handler
  | Panic string
  | RaftApply "byte list" duration
  | SetForwarded
  | GetLeader
  | TimeAfter duration
  | ConnPoolRPC string string int string
  | ContextWithTimeout duration
  | SetQueryMeta
  | RunQuery watchSet
  | WatchCtx "chan list"
  | CancelContext

subsection \<open>Connections\<close>

text \<open>
  An I/O error is \<open>io.EOF\<close> or another error with its message. A connection is what
  its peer and the network make it answer: the outcome of the first \<open>Read\<close> of one byte,
  the outcome of the TLS handshake on the connection wrapped by \<open>tls.Server\<close> (failure,
  or the verified chains and the wrapped connection, which has answers of its own), the
  outcome of decoding the streaming header (the method name), and the outcome of
  encoding the acknowledgement onto it.
\<close>

datatype ioError = EOF | IOError string

datatype conn =
  Conn (firstRead: "ioError + byte") (tlsHandshake: handshake)
       (decodeHeader: "ioError + string") (encodeAck: "ioError option")
and handshake = HandshakeFailed | HandshakeDone "certificate list list" conn

text \<open>\<open>strings.Contains\<close>.\<close>

fun strings_Contains :: "string \<Rightarrow> string \<Rightarrow> bool" where
  "strings_Contains [] sub = (sub = [])"
| "strings_Contains (c # cs) sub = (take (length sub) (c # cs) = sub \<or> strings_Contains cs sub)"

text \<open>\<open>err != io.EOF && !strings.Contains(err.Error(), "closed")\<close>, lines 256 and 274.\<close>

definition loggedError :: "ioError \<Rightarrow> bool" where
  "loggedError err = (case err of EOF \<Rightarrow> False | IOError msg \<Rightarrow> \<not> strings_Contains msg ''closed'')"

text \<open>
  What the connection handlers read of the server: \<open>r.config.TLSConfig.EnableRPC\<close>,
  \<open>r.config.TLSConfig.RPCUpgradeMode\<close>, whether \<open>r.rpcTLS\<close> is set, and the streaming
  handler registry \<open>r.streamingRpcs\<close>. The frame tags \<open>pool.RpcNomad\<close> ... are constants
  of package pool, outside rpc.go: they are fields here.
\<close>

record connServer =
  EnableRPC :: bool
  RPCUpgradeMode :: bool
  rpcTLS :: bool
  streamingRpcs :: "string \<rightharpoonup> handler"
  RpcNomad :: byte
  RpcRaft :: byte
  RpcMultiplex :: byte
  RpcTLS :: byte
  RpcStreaming :: byte
  RpcMultiplexV2 :: byte

subsection \<open>Streaming RPC carrier: \<open>handleStreamingConn\<close> (lines 266 to 304)\<close>

text \<open>
  Modelled from the spec: \<open>GetHandler\<close> of the streaming handler registry (package
  structs, outside rpc.go). The registry is a mapping from method name to handler;
  a method with no handler yields an error whose text is not empty.
\<close>

definition GetHandler :: "(string \<rightharpoonup> handler) \<Rightarrow> string \<Rightarrow> string + handler" where
  "GetHandler registry method =
     (case registry method of
        None \<Rightarrow> Inl (''unknown rpc method: '' @ method)
      | Some h \<Rightarrow> Inr h)"

text \<open>
  The trace of \<open>handleStreamingConn\<close>. \<open>EncodeAck e\<close> is the call \<open>encoder.Encode(ack)\<close>
  with \<open>ack.Error = e\<close>. The last \<open>ConnClose\<close> of every path is the deferred
  \<open>conn.Close()\<close>. Calling the nil handler panics; the deferred close still runs.
\<close>

definition handleStreamingConn :: "connServer \<Rightarrow> conn \<Rightarrow> event list" where
  "handleStreamingConn s c =
     (case decodeHeader c of
        Inl err \<Rightarrow>
          (if loggedError err
           then [Log LvlError ''streaming RPC error'',
                 IncrCounter [''nomad'', ''streaming_rpc'', ''request_error'']]
           else [])
          @ [ConnClose]
      | Inr method \<Rightarrow>
          (let (ackError, handler, tr) =
                 (case GetHandler (streamingRpcs s) method of
                    Inl e \<Rightarrow>
                      (e, None,
                       [Log LvlError ''streaming RPC error'',
                        IncrCounter [''nomad'', ''streaming_rpc'', ''request_error'']])
                  | Inr h \<Rightarrow> ([], Some h, []))
           in if encodeAck c \<noteq> None then tr @ [EncodeAck ackError, ConnClose, ConnClose]
              else if ackError \<noteq> [] then tr @ [EncodeAck ackError, ConnClose]
              else
                tr @ [EncodeAck ackError, IncrCounter [''nomad'', ''streaming_rpc'', ''request'']]
                @ (case handler of
                     None \<Rightarrow> [Panic ''nil handler'']
                   | Some h \<Rightarrow> [InvokeHandler h])
                @ [ConnClose]))"

subsection \<open>Frame demultiplexer: \<open>handleConn\<close> (lines 112 to 197)\<close>

text \<open>
  \<open>handleConn\<close> is the function up to line 132: the read of the first byte and the TLS
  enforcement. \<open>switchRPCType\<close> is the \<open>switch\<close> of lines 135 to 196 on that byte. Both
  yield the trace and the connection context as they leave it. The calls of
  \<open>handleNomadConn\<close>, \<open>raftLayer.Handoff\<close>, \<open>handleMultiplex\<close> and \<open>handleMultiplexV2\<close>
  are events: what happens inside them is theirs. \<open>tls.Server\<close> always yields a
  \<open>*tls.Conn\<close>, so the type assertion of line 163 holds.
\<close>

fun handleConn :: "connServer \<Rightarrow> conn \<Rightarrow> RPCContext \<Rightarrow> event list \<times> RPCContext"
and switchRPCType :: "connServer \<Rightarrow> conn \<Rightarrow> RPCContext \<Rightarrow> byte \<Rightarrow> event list \<times> RPCContext" where
  "handleConn s c rpcCtx =
     (case firstRead c of
        Inl err \<Rightarrow>
          ((if err \<noteq> EOF then [Log LvlError ''failed to read first RPC byte''] else [])
           @ [ConnClose], rpcCtx)
      | Inr b \<Rightarrow>
          if (EnableRPC s \<and> \<not> TLS rpcCtx \<and> b \<noteq> RpcTLS s) \<and> \<not> RPCUpgradeMode s
          then ([Log LvlWarn ''non-TLS connection attempted with RequireTLS set'', ConnClose],
                rpcCtx)
          else switchRPCType s c rpcCtx b)"
| "switchRPCType s (Conn rd hs dh ea) rpcCtx b =
     (if b = RpcNomad s then
        ([SetupRpcServer rpcCtx, HandleNomadConn, RemoveNodeConn rpcCtx], rpcCtx)
      else if b = RpcRaft s then
        ([IncrCounter [''nomad'', ''rpc'', ''raft_handoff''], RaftHandoff], rpcCtx)
      else if b = RpcMultiplex s then ([HandleMultiplex rpcCtx], rpcCtx)
      else if b = RpcTLS s then
        (if \<not> rpcTLS s
         then ([Log LvlWarn ''TLS connection attempted, server not configured for TLS'',
                ConnClose], rpcCtx)
         else
           (case hs of
              HandshakeFailed \<Rightarrow> ([Log LvlWarn ''failed TLS handshake'', ConnClose], rpcCtx)
            | HandshakeDone verified tlsConn \<Rightarrow>
                handleConn s tlsConn (rpcCtx\<lparr>TLS := True, VerifiedChains := verified\<rparr>)))
      else if b = RpcStreaming s then (handleStreamingConn s (Conn rd hs dh ea), rpcCtx)
      else if b = RpcMultiplexV2 s then ([HandleMultiplexV2 rpcCtx], rpcCtx)
      else ([Log LvlError ''unrecognized RPC byte'', ConnClose], rpcCtx))"

text \<open>The acknowledgements a trace encodes, and whether it invokes a handler.\<close>

definition acks :: "event list \<Rightarrow> event list" where
  "acks tr = filter (\<lambda>e. case e of EncodeAck x \<Rightarrow> True | _ \<Rightarrow> False) tr"

definition invokes :: "event list \<Rightarrow> event list" where
  "invokes tr = filter (\<lambda>e. case e of InvokeHandler h \<Rightarrow> True | _ \<Rightarrow> False) tr"

subsection \<open>Consensus submission helper: \<open>raftApplyFuture\<close> (lines 572 to 586)\<close>

text \<open>
  \<open>structs.Encode\<close> is outside rpc.go: it is the parameter \<open>Encode\<close>, which either
  fails with a message or yields the buffer. The future that \<open>raft.Apply\<close> returns is
  opaque to rpc.go; it is identified here with the buffer and enqueue timeout it was
  created from.
\<close>

datatype applyFuture = ApplyFuture "byte list" duration

definition raftApplyFuture ::
  "('t \<Rightarrow> 'm \<Rightarrow> string + byte list) \<Rightarrow> 't \<Rightarrow> 'm \<Rightarrow> event list \<times> (error + applyFuture)" where
  "raftApplyFuture Encode t msg =
     (case Encode t msg of
        Inl err \<Rightarrow> ([], Inl (ErrMsg (''Failed to encode request: '' @ err)))
      | Inr buf \<Rightarrow>
          ((if length buf > raftWarnSize
            then [Log LvlWarn ''attempting to apply large raft entry'']
            else [])
           @ [RaftApply buf enqueueLimit],
           Inr (ApplyFuture buf enqueueLimit)))"

text \<open>Whether a trace holds the large-entry warning.\<close>

definition warned :: "event list \<Rightarrow> bool" where
  "warned tr = (Log LvlWarn ''attempting to apply large raft entry'' \<in> set tr)"

subsection \<open>Forwarder: \<open>forward\<close>, \<open>getLeader\<close>, \<open>forwardLeader\<close>, \<open>forwardRegion\<close> (lines 371 to 489)\<close>

text \<open>
  Modelled from the spec: \<open>structs.RPCInfo\<close>, an interface of package structs, outside
  rpc.go. It is the request-info capability exposing \<open>RequestRegion()\<close>, \<open>IsRead()\<close>,
  \<open>AllowStaleRead()\<close> and \<open>SetForwarded()\<close>; \<open>SetForwarded\<close> sets the forwarded mark,
  which the field \<open>Forwarded\<close> holds.
\<close>

record RPCInfo =
  RequestRegion :: string
  IsRead :: bool
  AllowStaleRead :: bool
  Forwarded :: bool

text \<open>
  What \<open>forward\<close> reads of the server: \<open>r.config.Region\<close>, \<open>r.config.RPCHoldTimeout\<close>,
  the peer directory \<open>r.peers\<close> (a Go map: a missing region reads as the empty slice) and
  the connection pool, whose \<open>RPC\<close> method answers with an error or nil.
  \<open>structs.JitterFraction\<close> is a constant of package structs, outside rpc.go: it is a
  field here (the spec: a positive integer).
\<close>

record fwdServer =
  Region :: string
  RPCHoldTimeout :: duration
  JitterFraction :: int
  peers :: "string \<rightharpoonup> serverParts list"
  connPoolRPC :: "string \<Rightarrow> string \<Rightarrow> int \<Rightarrow> string \<Rightarrow> error option"

text \<open>Go's \<open>/\<close> on integers truncates towards zero.\<close>

definition go_div :: "int \<Rightarrow> int \<Rightarrow> int" where
  "go_div a b = sgn a * sgn b * (\<bar>a\<bar> div \<bar>b\<bar>)"

text \<open>
  Modelled from the spec: \<open>lib.RandomStagger\<close> belongs to an external library. It
  returns a random duration in \<open>[0, intv)\<close>: the draw of the random source, reduced
  modulo \<open>intv\<close>. The draw is an input of the model. For an interval that is not
  positive there is no such duration, and the model answers 0.
\<close>

definition RandomStagger :: "duration \<Rightarrow> nat \<Rightarrow> duration" where
  "RandomStagger intv draw = (if intv \<le> 0 then 0 else int draw mod intv)"

text \<open>
  One pass through the label \<open>CHECK_LEADER\<close> asks the world these questions, in this
  order: \<open>s.IsLeader()\<close>, \<open>s.raft.Leader()\<close>, the map \<open>s.localPeers\<close>, \<open>time.Now()\<close> on
  line 413 (asked only while \<open>firstCheck\<close> is zero), \<open>time.Now()\<close> on line 415, the draw
  inside \<open>RandomStagger\<close>, and which case of the \<open>select\<close> on line 417 becomes ready.
  A \<open>leaderRound\<close> holds the answers of one pass; the list of rounds is the script of
  the world for one call. A call that needs more rounds than the script has yields \<open>None\<close>.
\<close>

datatype selected = TimerFired | ShutdownFired

record leaderRound =
  isLeader :: bool
  raftLeader :: string
  localPeers :: "string \<rightharpoonup> serverParts"
  nowFirst :: time
  nowCheck :: time
  rand63 :: nat
  selectCase :: selected

text \<open>\<open>getLeader\<close>, lines 428 to 450. A nil \<open>*serverParts\<close> is \<open>None\<close>.\<close>

definition getLeader :: "leaderRound \<Rightarrow> bool \<times> serverParts option" where
  "getLeader w =
     (if isLeader w then (True, None)
      else if raftLeader w = [] then (False, None)
      else (False, localPeers w (raftLeader w)))"

text \<open>\<open>forwardLeader\<close>, lines 452 to 459.\<close>

definition forwardLeader :: "fwdServer \<Rightarrow> serverParts option \<Rightarrow> string \<Rightarrow> event list \<times> error option" where
  "forwardLeader s server method =
     (case server of
        None \<Rightarrow> ([], Some ErrNoLeader)
      | Some p \<Rightarrow>
          ([ConnPoolRPC (Region s) (Addr p) (MajorVersion p) method],
           connPoolRPC s (Region s) (Addr p) (MajorVersion p) method))"

text \<open>\<open>forwardRegion\<close>, lines 470 to 489. \<open>rand.Intn n\<close> answers with an offset in
  \<open>[0, n)\<close>: the draw of the random source reduced modulo \<open>n\<close>.\<close>

definition regionServers :: "fwdServer \<Rightarrow> string \<Rightarrow> serverParts list" where
  "regionServers s region = (case peers s region of None \<Rightarrow> [] | Some l \<Rightarrow> l)"

definition forwardRegion :: "fwdServer \<Rightarrow> nat \<Rightarrow> string \<Rightarrow> string \<Rightarrow> event list \<times> error option" where
  "forwardRegion s draw region method =
     (let servers = regionServers s region in
      if length servers = 0
      then ([Log LvlWarn ''no path found to region''], Some ErrNoRegionPath)
      else
        (let offset = draw mod length servers;
             server = servers ! offset
         in ([IncrCounter [''nomad'', ''rpc'', ''cross-region'', region],
              ConnPoolRPC region (Addr server) (MajorVersion server) method],
             connPoolRPC s region (Addr server) (MajorVersion server) method)))"

text \<open>
  \<open>forward\<close>, lines 371 to 426. The result is \<open>(handled, err)\<close>, the request info as the
  call leaves it, and the trace. \<open>checkLeader\<close> is the code from the label \<open>CHECK_LEADER\<close>
  to the end; \<open>firstCheck\<close> is \<open>None\<close> while the Go variable is the zero \<open>time.Time\<close>
  (\<open>time.Now()\<close> never answers with the zero time). \<open>args\<close> and \<open>reply\<close> are opaque to
  \<open>forward\<close> and left out.
\<close>

type_synonym fwdResult = "(bool \<times> error option) \<times> RPCInfo \<times> event list"

definition jitterOf :: "fwdServer \<Rightarrow> leaderRound \<Rightarrow> duration" where
  "jitterOf s w = RandomStagger (go_div (RPCHoldTimeout s) (JitterFraction s)) (rand63 w)"

definition after :: "event list \<Rightarrow> fwdResult \<Rightarrow> fwdResult" where
  "after pre r = (fst r, fst (snd r), pre @ snd (snd r))"

fun checkLeader :: "fwdServer \<Rightarrow> string \<Rightarrow> RPCInfo \<Rightarrow> time option \<Rightarrow> leaderRound list \<Rightarrow> fwdResult option" where
  "checkLeader s method info firstCheck [] = None"
| "checkLeader s method info firstCheck (w # ws) =
     (let (isLeader, remoteServer) = getLeader w in
      if isLeader then Some ((False, None), info, [GetLeader])
      else if remoteServer \<noteq> None then
        (let (tr, err) = forwardLeader s remoteServer method
         in Some ((True, err), info\<lparr>Forwarded := True\<rparr>, [GetLeader, SetForwarded] @ tr))
      else
        (let firstCheck' = (case firstCheck of None \<Rightarrow> nowFirst w | Some t \<Rightarrow> t) in
         if nowCheck w - firstCheck' < RPCHoldTimeout s then
           (let jitter = jitterOf s w in
            case selectCase w of
              TimerFired \<Rightarrow>
                map_option (after [GetLeader, TimeAfter jitter])
                  (checkLeader s method info (Some firstCheck') ws)
            | ShutdownFired \<Rightarrow>
                Some ((True, Some ErrNoLeader), info, [GetLeader, TimeAfter jitter]))
         else Some ((True, Some ErrNoLeader), info, [GetLeader])))"

definition forward :: "fwdServer \<Rightarrow> nat \<Rightarrow> string \<Rightarrow> RPCInfo \<Rightarrow> leaderRound list \<Rightarrow> fwdResult option" where
  "forward s draw method info ws =
     (let region = RequestRegion info in
      if region = [] then Some ((True, Some (ErrMsg ''missing target RPC'')), info, [])
      else if region \<noteq> Region s then
        (let (tr, err) = forwardRegion s draw region method
         in Some ((True, err), info\<lparr>Forwarded := True\<rparr>, SetForwarded # tr))
      else if IsRead info \<and> AllowStaleRead info then Some ((False, None), info, [])
      else checkLeader s method info None ws)"

text \<open>
  Vocabulary for the statements about the leader gate. \<open>noLeader\<close>: the lookup of the
  round finds neither the local server nor a known remote server as leader.
  \<open>retried s t0 w\<close>: in round \<open>w\<close>, with \<open>firstCheck = t0\<close>, the code goes back to
  \<open>CHECK_LEADER\<close>. \<open>waits\<close>: the trace of a sequence of such rounds.
\<close>

definition noLeader :: "leaderRound \<Rightarrow> bool" where
  "noLeader w = (getLeader w = (False, None))"

definition retried :: "fwdServer \<Rightarrow> time \<Rightarrow> leaderRound \<Rightarrow> bool" where
  "retried s t0 w = (noLeader w \<and> nowCheck w - t0 < RPCHoldTimeout s \<and> selectCase w = TimerFired)"

definition waits :: "fwdServer \<Rightarrow> leaderRound list \<Rightarrow> event list" where
  "waits s pre = concat (map (\<lambda>w. [GetLeader, TimeAfter (jitterOf s w)]) pre)"

subsection \<open>Blocking-query engine: \<open>setQueryMeta\<close>, \<open>blockingRPC\<close> (lines 604 to 690)\<close>

text \<open>
  The fields of \<open>structs.QueryOptions\<close> and \<open>structs.QueryMeta\<close> that rpc.go reads and
  writes. \<open>MinQueryIndex\<close> and \<open>Index\<close> are unsigned.
\<close>

record QueryOptions =
  MinQueryIndex :: nat
  MaxQueryTime :: duration

record QueryMeta =
  Index :: nat
  LastContact :: duration
  KnownLeader :: bool

text \<open>
  One pass through the label \<open>RUN_QUERY\<close> asks the world: \<open>r.IsLeader()\<close>,
  \<open>time.Now()\<close>, \<open>r.raft.LastContact()\<close> and \<open>r.raft.Leader()\<close> (inside \<open>setQueryMeta\<close>),
  the query function \<open>opts.run\<close> on the state snapshot of that moment, and the answer of
  \<open>ws.WatchCtx(ctx)\<close>: nil when a watched channel fired, the error of the context when
  its deadline fired first. The query function is a closure over the reply: from the
  query meta it finds it yields its error, the query meta it leaves and the channels it
  adds to the watch set (adding to the nil watch set does nothing). It does not touch the
  query options.
\<close>

record queryRound =
  qIsLeader :: bool
  qNow :: time
  qLastContact :: time
  qRaftLeader :: string
  run :: "QueryMeta \<Rightarrow> error option \<times> QueryMeta \<times> chan list"
  watchCtx :: "error option"

text \<open>\<open>setQueryMeta\<close>, lines 604 to 613.\<close>

definition setQueryMeta :: "queryRound \<Rightarrow> QueryMeta \<Rightarrow> QueryMeta" where
  "setQueryMeta w m =
     (if qIsLeader w then m\<lparr>LastContact := 0, KnownLeader := True\<rparr>
      else m\<lparr>LastContact := qNow w - qLastContact w, KnownLeader := (qRaftLeader w \<noteq> [])\<rparr>)"

text \<open>
  Lines 641 to 649: the restriction of the maximum query time and the jitter, written
  into the caller's query options. \<open>draw\<close> is the draw inside \<open>RandomStagger\<close>, \<open>jf\<close>
  is \<open>structs.JitterFraction\<close>.
\<close>

definition restrictQueryTime :: "int \<Rightarrow> nat \<Rightarrow> QueryOptions \<Rightarrow> QueryOptions" where
  "restrictQueryTime jf draw qo =
     (let qo1 = (if MaxQueryTime qo > maxQueryTime then qo\<lparr>MaxQueryTime := maxQueryTime\<rparr>
                 else if MaxQueryTime qo \<le> 0 then qo\<lparr>MaxQueryTime := defaultQueryTime\<rparr>
                 else qo)
      in qo1\<lparr>MaxQueryTime := MaxQueryTime qo1 + RandomStagger (go_div (MaxQueryTime qo1) jf) draw\<rparr>)"

text \<open>
  The code from the label \<open>RUN_QUERY\<close> to the end, lines 655 to 689. The result is the
  returned error, the query meta as the call leaves it, and the trace. The error returned
  on line 689 is the one of \<open>opts.run\<close>: the \<open>err\<close> of line 685 is a new variable.
\<close>

type_synonym queryResult = "error option \<times> QueryMeta \<times> event list"

definition afterQ :: "event list \<Rightarrow> queryResult \<Rightarrow> queryResult" where
  "afterQ pre r = (fst r, fst (snd r), pre @ snd (snd r))"

definition chansOf :: "watchSet \<Rightarrow> chan list" where
  "chansOf ws = (case ws of None \<Rightarrow> [] | Some l \<Rightarrow> l)"

fun runQuery :: "QueryOptions \<Rightarrow> QueryMeta \<Rightarrow> queryRound list \<Rightarrow> queryResult option" where
  "runQuery qo meta [] = None"
| "runQuery qo meta (w # rest) =
     (let meta1 = setQueryMeta w meta;
          ws = (if MinQueryIndex qo > 0 then Some [AbandonCh] else None);
          (err, meta2, added) = run w meta1;
          ws' = map_option (\<lambda>l. l @ added) ws;
          tr = [SetQueryMeta, IncrCounter [''nomad'', ''rpc'', ''query''], RunQuery ws]
      in if err = None \<and> MinQueryIndex qo > 0 \<and> Index meta2 \<le> MinQueryIndex qo then
           (if watchCtx w = None
            then map_option (afterQ (tr @ [WatchCtx (chansOf ws')])) (runQuery qo meta2 rest)
            else Some (err, meta2, tr @ [WatchCtx (chansOf ws')]))
         else Some (err, meta2, tr))"

text \<open>
  \<open>blockingRPC\<close>, lines 629 to 690. The result is the returned error, the caller's query
  options and query meta as the call leaves them (both are reached through pointers), and
  the trace. \<open>CancelContext\<close> is the deferred \<open>cancel()\<close>.
\<close>

definition blockingRPC ::
  "int \<Rightarrow> nat \<Rightarrow> QueryOptions \<Rightarrow> QueryMeta \<Rightarrow> queryRound list
     \<Rightarrow> (error option \<times> QueryOptions \<times> QueryMeta \<times> event list) option" where
  "blockingRPC jf draw qo meta rounds =
     (if MinQueryIndex qo = 0
      then map_option (\<lambda>r. (fst r, qo, fst (snd r), snd (snd r))) (runQuery qo meta rounds)
      else
        (let qo' = restrictQueryTime jf draw qo
         in map_option
              (\<lambda>r. (fst r, qo', fst (snd r),
                     [ContextWithTimeout (MaxQueryTime qo')] @ snd (snd r) @ [CancelContext]))
              (runQuery qo' meta rounds)))"

text \<open>
  Vocabulary for the statements about blocking queries. \<open>clampedWait\<close> follows the
  words of the specification: the requested maximum wait, set to \<open>maxQueryTime\<close> when it
  exceeds it and to \<open>defaultQueryTime\<close> when it is zero or negative. \<open>metaAfter\<close>: the
  query meta after the given rounds have each run once. \<open>runs\<close>: how often a trace
  invokes the query function.
\<close>

definition clampedWait :: "duration \<Rightarrow> duration" where
  "clampedWait d = (if d > maxQueryTime then maxQueryTime else if d \<le> 0 then defaultQueryTime else d)"

fun metaAfter :: "QueryMeta \<Rightarrow> queryRound list \<Rightarrow> QueryMeta" where
  "metaAfter m [] = m"
| "metaAfter m (w # rest) = metaAfter (fst (snd (run w (setQueryMeta w m)))) rest"

definition runs :: "event list \<Rightarrow> nat" where
  "runs tr = length (filter (\<lambda>e. case e of RunQuery ws \<Rightarrow> True | _ \<Rightarrow> False) tr)"

text \<open>
  A server of region east with two known servers of region west (the pool reaches A and
  not B), a hold timeout of 200 ns and the jitter fraction 16; a write request for the
  local region; a round that finds no leader, in which the clock reads 1000 on line 413
  and \<open>t\<close> on line 415.
\<close>

definition exServer :: fwdServer where
  "exServer =
     \<lparr>Region = ''east'', RPCHoldTimeout = 200, JitterFraction = 16,
      peers = [''west'' \<mapsto> [\<lparr>Addr = ''A'', MajorVersion = 1\<rparr>, \<lparr>Addr = ''B'', MajorVersion = 1\<rparr>]],
      connPoolRPC = (\<lambda>region addr version method. if addr = ''A'' then None else Some (ErrMsg ''down''))\<rparr>"

definition exInfo :: "string \<Rightarrow> RPCInfo" where
  "exInfo region = \<lparr>RequestRegion = region, IsRead = False, AllowStaleRead = False, Forwarded = False\<rparr>"

definition exNoLeader :: "time \<Rightarrow> nat \<Rightarrow> selected \<Rightarrow> leaderRound" where
  "exNoLeader t r sel =
     \<lparr>isLeader = False, raftLeader = [], localPeers = Map.empty, nowFirst = 1000, nowCheck = t,
      rand63 = r, selectCase = sel\<rparr>"

text \<open>The error text of the acknowledgement for a method: that of the failed lookup, empty
  when the registry has a handler.\<close>

definition ackErrorOf :: "connServer \<Rightarrow> string \<Rightarrow> string" where
  "ackErrorOf s method = (case GetHandler (streamingRpcs s) method of Inl e \<Rightarrow> e | Inr h \<Rightarrow> [])"

text \<open>A server that requires TLS on RPC, with the frame tags 1 to 6 and one streaming
  handler; a fresh connection context; a connection whose first byte is the streaming
  tag.\<close>

definition exConnServer :: connServer where
  "exConnServer = \<lparr>EnableRPC = True, RPCUpgradeMode = False, rpcTLS = True,
     streamingRpcs = [''FileSystem.Logs'' \<mapsto> Handler ''logs''],
     RpcNomad = 1, RpcRaft = 2, RpcMultiplex = 3, RpcTLS = 4, RpcStreaming = 5, RpcMultiplexV2 = 6\<rparr>"

definition exCtx :: RPCContext where
  "exCtx = \<lparr>Session = False, TLS = False, VerifiedChains = [], NodeID = []\<rparr>"

definition exStream :: "ioError + string \<Rightarrow> ioError option \<Rightarrow> conn" where
  "exStream hdr ack = Conn (Inr 5) HandshakeFailed hdr ack"

text \<open>The trace of one pass of a blocking query that ends in the wait on the watch set.\<close>

definition blockedTrace :: "queryRound \<Rightarrow> QueryMeta \<Rightarrow> event list" where
  "blockedTrace w meta =
     [SetQueryMeta, IncrCounter [''nomad'', ''rpc'', ''query''], RunQuery (Some [AbandonCh]),
      WatchCtx (AbandonCh # snd (snd (run w (setQueryMeta w meta))))]"


text \<open>
  A round in which the server is the leader and the query function succeeds, sets the
  reply index to \<open>i\<close> and watches one channel; the answer of the wait is \<open>wc\<close>.
\<close>

definition exQueryRound :: "nat \<Rightarrow> error option \<Rightarrow> queryRound" where
  "exQueryRound i wc =
     \<lparr>qIsLeader = True, qNow = 50, qLastContact = 10, qRaftLeader = ''a'',
      run = (\<lambda>m. (None, m\<lparr>Index := i\<rparr>, [WatchCh 1])), watchCtx = wc\<rparr>"

definition exMeta :: QueryMeta where
  "exMeta = \<lparr>Index = 0, LastContact = 7, KnownLeader = False\<rparr>"

section \<open>Theorems\<close>

subsection \<open>C8: the oversize warning of a consensus submission\<close>

text \<open>
  C8. Whenever the message encodes to a buffer, \<open>raftApplyFuture\<close> warns if and only if
  the buffer is strictly longer than 1 MiB (1048576 bytes): a buffer of exactly 1048576
  bytes does not warn, one of 1048577 bytes does. With or without the warning the buffer
  is submitted to consensus once, with the 30 s enqueue limit, and the call returns the
  future and no error.
\<close>

theorem raftApplyFuture_warns_above_1MiB:
  assumes "Encode t msg = Inr buf"
  shows "(warned (fst (raftApplyFuture Encode t msg)) = (1048576 < length buf))
       \<and> (length buf = 1048576 \<longrightarrow> fst (raftApplyFuture Encode t msg) = [RaftApply buf enqueueLimit])
       \<and> (length buf = 1048577 \<longrightarrow>
            fst (raftApplyFuture Encode t msg) =
              [Log LvlWarn ''attempting to apply large raft entry'', RaftApply buf enqueueLimit])
       \<and> filter (\<lambda>e. case e of RaftApply b d \<Rightarrow> True | _ \<Rightarrow> False) (fst (raftApplyFuture Encode t msg))
           = [RaftApply buf enqueueLimit]
       \<and> snd (raftApplyFuture Encode t msg) = Inr (ApplyFuture buf enqueueLimit)"
  using assms by (simp add: raftApplyFuture_def warned_def raftWarnSize_def)

theorem raftApplyFuture_warns_above_1MiB_witness:
  "warned (fst (raftApplyFuture (\<lambda>t m. Inr (replicate m (t::byte))) 1 1048577))
   \<and> \<not> warned (fst (raftApplyFuture (\<lambda>t m. Inr (replicate m (t::byte))) 1 1048576))
   \<and> snd (raftApplyFuture (\<lambda>t m. Inr (replicate m (t::byte))) 1 1048576)
       = Inr (ApplyFuture (replicate 1048576 1) enqueueLimit)"
  using raftApplyFuture_warns_above_1MiB
          [of "\<lambda>t m. Inr (replicate m (t::byte))" 1 1048577 "replicate 1048577 1"]
        raftApplyFuture_warns_above_1MiB
          [of "\<lambda>t m. Inr (replicate m (t::byte))" 1 1048576 "replicate 1048576 1"]
  by (simp add: warned_def)

subsection \<open>The forwarder\<close>

lemma after_Nil: "after [] r = r"
  by (simp add: after_def)

lemma after_after: "after a (after b r) = after (a @ b) r"
  by (simp add: after_def)

lemma map_option_after: "map_option (after a) (map_option (after b) x) = map_option (after (a @ b)) x"
  by (cases x) (simp_all add: after_after)

lemma map_option_after_Nil: "map_option (after []) x = x"
  by (cases x) (simp_all add: after_Nil)

lemma checkLeader_firstCheck:
  "checkLeader s m info None ws = checkLeader s m info (Some (nowFirst (hd ws))) ws"
  by (cases ws) (simp_all add: Let_def split: prod.splits)

lemma checkLeader_retried_step:
  "retried s t0 w \<Longrightarrow>
   checkLeader s m info (Some t0) (w # ws) =
     map_option (after [GetLeader, TimeAfter (jitterOf s w)]) (checkLeader s m info (Some t0) ws)"
  by (simp add: retried_def noLeader_def Let_def)

lemma checkLeader_retried:
  "\<forall>p\<in>set pre. retried s t0 p \<Longrightarrow>
   checkLeader s m info (Some t0) (pre @ rest) =
     map_option (after (waits s pre)) (checkLeader s m info (Some t0) rest)"
proof (induction pre)
  case Nil
  show ?case by (simp add: waits_def map_option_after_Nil)
next
  case (Cons p pre)
  then have "retried s t0 p" and "\<forall>q\<in>set pre. retried s t0 q" by simp_all
  then show ?case
    using Cons.IH by (simp add: checkLeader_retried_step map_option_after waits_def del: checkLeader.simps)
qed

lemma checkLeader_stop:
  "\<not> retried s t0 w \<Longrightarrow> checkLeader s m info (Some t0) (w # ws) = Some r \<Longrightarrow>
   \<exists>fin. snd (snd r) = GetLeader # fin \<and> GetLeader \<notin> set fin"
  by (auto simp: retried_def noLeader_def Let_def forwardLeader_def
           split: prod.splits if_splits selected.splits option.splits)

lemma checkLeader_Some:
  "checkLeader s m info (Some t0) ws = Some r \<Longrightarrow>
   \<exists>pre w post fin. ws = pre @ w # post \<and> (\<forall>p\<in>set pre. retried s t0 p)
      \<and> snd (snd r) = waits s pre @ GetLeader # fin \<and> GetLeader \<notin> set fin"
proof (induction ws arbitrary: r)
  case Nil
  then show ?case by simp
next
  case (Cons w ws)
  show ?case
  proof (cases "retried s t0 w")
    case False
    from checkLeader_stop [OF False Cons.prems]
    obtain fin where "snd (snd r) = GetLeader # fin" "GetLeader \<notin> set fin" by blast
    then have "w # ws = [] @ w # ws \<and> (\<forall>p\<in>set []. retried s t0 p)
       \<and> snd (snd r) = waits s [] @ GetLeader # fin \<and> GetLeader \<notin> set fin"
      by (simp add: waits_def)
    then show ?thesis by blast
  next
    case True
    with Cons.prems obtain r' where r': "checkLeader s m info (Some t0) ws = Some r'"
      and r: "r = after [GetLeader, TimeAfter (jitterOf s w)] r'"
      by (auto simp: checkLeader_retried_step simp del: checkLeader.simps)
    from Cons.IH [OF r'] obtain pre v post fin where
      d: "ws = pre @ v # post" "\<forall>p\<in>set pre. retried s t0 p"
         "snd (snd r') = waits s pre @ GetLeader # fin" "GetLeader \<notin> set fin"
      by blast
    have "w # ws = (w # pre) @ v # post \<and> (\<forall>p\<in>set (w # pre). retried s t0 p)
       \<and> snd (snd r) = waits s (w # pre) @ GetLeader # fin \<and> GetLeader \<notin> set fin"
      using d True r by (simp add: waits_def after_def)
    then show ?thesis by blast
  qed
qed

lemma checkLeader_timeout_step:
  "noLeader w \<Longrightarrow> RPCHoldTimeout s \<le> nowCheck w - t0 \<Longrightarrow>
   checkLeader s m info (Some t0) (w # post) = Some ((True, Some ErrNoLeader), info, [GetLeader])"
  by (simp add: noLeader_def Let_def)

lemma checkLeader_shutdown_step:
  "noLeader w \<Longrightarrow> nowCheck w - t0 < RPCHoldTimeout s \<Longrightarrow> selectCase w = ShutdownFired \<Longrightarrow>
   checkLeader s m info (Some t0) (w # post) =
     Some ((True, Some ErrNoLeader), info, [GetLeader, TimeAfter (jitterOf s w)])"
  by (simp add: noLeader_def Let_def)

lemma jitterOf_range:
  "0 < go_div (RPCHoldTimeout s) (JitterFraction s) \<Longrightarrow>
   0 \<le> jitterOf s w \<and> jitterOf s w < go_div (RPCHoldTimeout s) (JitterFraction s)"
  by (simp add: jitterOf_def RandomStagger_def)

lemma forward_local:
  "RequestRegion info = Region s \<Longrightarrow> RequestRegion info \<noteq> [] \<Longrightarrow>
   \<not> (IsRead info \<and> AllowStaleRead info) \<Longrightarrow>
   forward s draw m info ws = checkLeader s m info (Some (nowFirst (hd ws))) ws"
  using checkLeader_firstCheck [of s m info ws] by (auto simp: forward_def Let_def)

text \<open>
  C3. For a call of \<open>forward\<close> for the local region that may not be served as a stale
  read. First: every completed call ran the rounds \<open>pre\<close> and then one last round. Each
  round of \<open>pre\<close> found no leader at a moment when less than \<open>RPCHoldTimeout\<close> had passed
  since the first failed lookup (the clock reading \<open>nowFirst\<close> of the first round),
  slept for the jitter of that round, which is not negative and lies below
  \<open>RPCHoldTimeout / JitterFraction\<close> when that quotient is positive, and only then looked
  the leader up again: the trace is \<open>waits s pre\<close>, one more lookup and no lookup after
  it. Second: when, after such rounds, a lookup finds no leader and \<open>RPCHoldTimeout\<close> or
  more has passed since the first failed lookup, the call returns \<open>(true, ErrNoLeader)\<close>
  at once, without sleeping and without marking the request as forwarded.
\<close>

theorem forward_leader_gate_holdTimeout:
  assumes "RequestRegion info = Region s" and "RequestRegion info \<noteq> []"
    and "\<not> (IsRead info \<and> AllowStaleRead info)"
  shows "(\<forall>res info' tr. forward s draw m info ws = Some (res, info', tr) \<longrightarrow>
            (\<exists>pre w post fin. ws = pre @ w # post \<and> tr = waits s pre @ GetLeader # fin
               \<and> GetLeader \<notin> set fin
               \<and> (\<forall>p\<in>set pre. noLeader p \<and> nowCheck p - nowFirst (hd ws) < RPCHoldTimeout s
                     \<and> (0 < go_div (RPCHoldTimeout s) (JitterFraction s) \<longrightarrow>
                          0 \<le> jitterOf s p
                          \<and> jitterOf s p < go_div (RPCHoldTimeout s) (JitterFraction s)))))
       \<and> (\<forall>pre w post. ws = pre @ w # post
             \<and> (\<forall>p\<in>set pre. retried s (nowFirst (hd ws)) p)
             \<and> noLeader w \<and> RPCHoldTimeout s \<le> nowCheck w - nowFirst (hd ws) \<longrightarrow>
            forward s draw m info ws = Some ((True, Some ErrNoLeader), info, waits s pre @ [GetLeader]))"
proof (intro conjI allI impI)
  fix res info' tr
  assume "forward s draw m info ws = Some (res, info', tr)"
  then have "checkLeader s m info (Some (nowFirst (hd ws))) ws = Some (res, info', tr)"
    using assms by (simp add: forward_local)
  from checkLeader_Some [OF this] obtain pre w post fin where
    d: "ws = pre @ w # post" "\<forall>p\<in>set pre. retried s (nowFirst (hd ws)) p"
       "tr = waits s pre @ GetLeader # fin" "GetLeader \<notin> set fin"
    by auto
  have "\<forall>p\<in>set pre. noLeader p \<and> nowCheck p - nowFirst (hd ws) < RPCHoldTimeout s
          \<and> (0 < go_div (RPCHoldTimeout s) (JitterFraction s) \<longrightarrow>
               0 \<le> jitterOf s p \<and> jitterOf s p < go_div (RPCHoldTimeout s) (JitterFraction s))"
    using d(2) jitterOf_range [of s] by (auto simp: retried_def)
  with d show "\<exists>pre w post fin. ws = pre @ w # post \<and> tr = waits s pre @ GetLeader # fin
               \<and> GetLeader \<notin> set fin
               \<and> (\<forall>p\<in>set pre. noLeader p \<and> nowCheck p - nowFirst (hd ws) < RPCHoldTimeout s
                     \<and> (0 < go_div (RPCHoldTimeout s) (JitterFraction s) \<longrightarrow>
                          0 \<le> jitterOf s p
                          \<and> jitterOf s p < go_div (RPCHoldTimeout s) (JitterFraction s)))"
    by blast
next
  fix pre w post
  assume a: "ws = pre @ w # post
             \<and> (\<forall>p\<in>set pre. retried s (nowFirst (hd ws)) p)
             \<and> noLeader w \<and> RPCHoldTimeout s \<le> nowCheck w - nowFirst (hd ws)"
  then have a1: "ws = pre @ w # post" and a2: "\<forall>p\<in>set pre. retried s (nowFirst (hd ws)) p"
    and a3: "noLeader w" and a4: "RPCHoldTimeout s \<le> nowCheck w - nowFirst (hd ws)"
    by blast+
  have "checkLeader s m info (Some (nowFirst (hd ws))) (w # post)
               = Some ((True, Some ErrNoLeader), info, [GetLeader])"
    using a3 a4 by (rule checkLeader_timeout_step)
  moreover have "checkLeader s m info (Some (nowFirst (hd ws))) (pre @ w # post)
               = map_option (after (waits s pre)) (checkLeader s m info (Some (nowFirst (hd ws))) (w # post))"
    using a2 by (rule checkLeader_retried)
  ultimately have "checkLeader s m info (Some (nowFirst (hd ws))) (pre @ w # post)
               = Some ((True, Some ErrNoLeader), info, waits s pre @ [GetLeader])"
    by (simp add: after_def del: checkLeader.simps)
  then show "forward s draw m info ws = Some ((True, Some ErrNoLeader), info, waits s pre @ [GetLeader])"
    using assms a1 forward_local [of info s draw m ws] by simp
qed

theorem forward_leader_gate_holdTimeout_witness:
  "forward exServer 0 ''Job.Register'' (exInfo ''east'')
     [exNoLeader 1001 77 TimerFired, exNoLeader 1199 78 TimerFired, exNoLeader 1200 79 TimerFired]
   = Some ((True, Some ErrNoLeader), exInfo ''east'',
           [GetLeader, TimeAfter 5, GetLeader, TimeAfter 6, GetLeader])"
proof -
  let ?ws = "[exNoLeader 1001 77 TimerFired, exNoLeader 1199 78 TimerFired, exNoLeader 1200 79 TimerFired]"
  let ?pre = "[exNoLeader 1001 77 TimerFired, exNoLeader 1199 78 TimerFired]"
  have 1: "RequestRegion (exInfo ''east'') = Region exServer"
    and 2: "RequestRegion (exInfo ''east'') \<noteq> []"
    and 3: "\<not> (IsRead (exInfo ''east'') \<and> AllowStaleRead (exInfo ''east''))"
    by (simp_all add: exInfo_def exServer_def)
  have h: "?ws = ?pre @ exNoLeader 1200 79 TimerFired # []
       \<and> (\<forall>p\<in>set ?pre. retried exServer (nowFirst (hd ?ws)) p)
       \<and> noLeader (exNoLeader 1200 79 TimerFired)
       \<and> RPCHoldTimeout exServer \<le> nowCheck (exNoLeader 1200 79 TimerFired) - nowFirst (hd ?ws)"
    by (simp add: retried_def noLeader_def getLeader_def exNoLeader_def exServer_def)
  from forward_leader_gate_holdTimeout [OF 1 2 3, of 0 "''Job.Register''" ?ws] h
  have "forward exServer 0 ''Job.Register'' (exInfo ''east'') ?ws
          = Some ((True, Some ErrNoLeader), exInfo ''east'', waits exServer ?pre @ [GetLeader])"
    by blast
  moreover have "waits exServer ?pre = [GetLeader, TimeAfter 5, GetLeader, TimeAfter 6]"
    by (simp add: waits_def jitterOf_def RandomStagger_def go_div_def exNoLeader_def exServer_def)
  ultimately show ?thesis by simp
qed

text \<open>
  C10. For a call of \<open>forward\<close> for the local region that may not be served as a stale
  read and that has retried through the rounds \<open>pre\<close>: when the next lookup finds no
  leader while less than \<open>RPCHoldTimeout\<close> has passed since the first failed lookup, and
  the shutdown channel is the case of the \<open>select\<close> that becomes ready during the sleep,
  the call returns \<open>(true, ErrNoLeader)\<close>. The trace ends with that sleep: the leader is
  not looked up again, whatever the later rounds would have answered.
\<close>

theorem forward_shutdown_during_sleep:
  assumes "RequestRegion info = Region s" and "RequestRegion info \<noteq> []"
    and "\<not> (IsRead info \<and> AllowStaleRead info)"
    and "ws = pre @ w # post"
    and "\<forall>p\<in>set pre. retried s (nowFirst (hd ws)) p"
    and "noLeader w"
    and "nowCheck w - nowFirst (hd ws) < RPCHoldTimeout s"
    and "selectCase w = ShutdownFired"
  shows "forward s draw m info ws =
           Some ((True, Some ErrNoLeader), info, waits s pre @ [GetLeader, TimeAfter (jitterOf s w)])"
proof -
  have "checkLeader s m info (Some (nowFirst (hd ws))) (w # post)
          = Some ((True, Some ErrNoLeader), info, [GetLeader, TimeAfter (jitterOf s w)])"
    using assms(6,7,8) by (rule checkLeader_shutdown_step)
  moreover have "checkLeader s m info (Some (nowFirst (hd ws))) (pre @ w # post)
          = map_option (after (waits s pre)) (checkLeader s m info (Some (nowFirst (hd ws))) (w # post))"
    using assms(5) by (rule checkLeader_retried)
  ultimately have "checkLeader s m info (Some (nowFirst (hd ws))) (pre @ w # post)
          = Some ((True, Some ErrNoLeader), info, waits s pre @ [GetLeader, TimeAfter (jitterOf s w)])"
    by (simp add: after_def del: checkLeader.simps)
  then show ?thesis
    using assms(1-4) forward_local [of info s draw m ws] by simp
qed

theorem forward_shutdown_during_sleep_witness:
  "forward exServer 0 ''Job.Register'' (exInfo ''east'')
     [exNoLeader 1001 77 TimerFired, exNoLeader 1100 78 ShutdownFired, exNoLeader 1150 79 TimerFired]
   = Some ((True, Some ErrNoLeader), exInfo ''east'',
           [GetLeader, TimeAfter 5, GetLeader, TimeAfter 6])"
proof -
  let ?ws = "[exNoLeader 1001 77 TimerFired, exNoLeader 1100 78 ShutdownFired, exNoLeader 1150 79 TimerFired]"
  let ?pre = "[exNoLeader 1001 77 TimerFired]"
  let ?w = "exNoLeader 1100 78 ShutdownFired"
  have 1: "RequestRegion (exInfo ''east'') = Region exServer"
    and 2: "RequestRegion (exInfo ''east'') \<noteq> []"
    and 3: "\<not> (IsRead (exInfo ''east'') \<and> AllowStaleRead (exInfo ''east''))"
    by (simp_all add: exInfo_def exServer_def)
  have 4: "?ws = ?pre @ ?w # [exNoLeader 1150 79 TimerFired]" by simp
  have 5: "\<forall>p\<in>set ?pre. retried exServer (nowFirst (hd ?ws)) p"
    by (simp add: retried_def noLeader_def getLeader_def exNoLeader_def exServer_def)
  have 6: "noLeader ?w"
    by (simp add: noLeader_def getLeader_def exNoLeader_def)
  have 7: "nowCheck ?w - nowFirst (hd ?ws) < RPCHoldTimeout exServer"
    by (simp add: exNoLeader_def exServer_def)
  have 8: "selectCase ?w = ShutdownFired" by (simp add: exNoLeader_def)
  from forward_shutdown_during_sleep [OF 1 2 3 4 5 6 7 8, of 0 "''Job.Register''"]
  have "forward exServer 0 ''Job.Register'' (exInfo ''east'') ?ws
          = Some ((True, Some ErrNoLeader), exInfo ''east'',
                  waits exServer ?pre @ [GetLeader, TimeAfter (jitterOf exServer ?w)])" .
  moreover have "waits exServer ?pre = [GetLeader, TimeAfter 5]" "jitterOf exServer ?w = 6"
    by (simp_all add: waits_def jitterOf_def RandomStagger_def go_div_def exNoLeader_def exServer_def)
  ultimately show ?thesis by simp
qed

text \<open>
  C7. For a call of \<open>forward\<close> whose request region is not empty and is not the local
  region: the request is marked as forwarded first, \<open>forwardRegion\<close> is called, and the
  result is \<open>(true, err)\<close> with the error of \<open>forwardRegion\<close>; the leader is never
  looked up. When the peer directory has no server for the region, \<open>err\<close> is
  \<open>ErrNoRegionPath\<close> and the pool is not called. Otherwise \<open>err\<close> is the answer of the
  connection pool for the region and the address and major version of the server at the
  drawn offset, a server of that region; each of the \<open>n\<close> offsets below the number of
  servers selects the server at that position, so equally likely offsets make the servers
  equally likely.
\<close>

theorem forward_other_region:
  assumes "RequestRegion info \<noteq> []" and "RequestRegion info \<noteq> Region s"
  shows "forward s draw m info ws =
           Some ((True, snd (forwardRegion s draw (RequestRegion info) m)),
                 info\<lparr>Forwarded := True\<rparr>,
                 SetForwarded # fst (forwardRegion s draw (RequestRegion info) m))
       \<and> (regionServers s (RequestRegion info) = [] \<longrightarrow>
            forwardRegion s draw (RequestRegion info) m =
              ([Log LvlWarn ''no path found to region''], Some ErrNoRegionPath))
       \<and> (regionServers s (RequestRegion info) \<noteq> [] \<longrightarrow>
            (\<exists>p \<in> set (regionServers s (RequestRegion info)).
               p = regionServers s (RequestRegion info) ! (draw mod length (regionServers s (RequestRegion info)))
               \<and> forwardRegion s draw (RequestRegion info) m =
                  ([IncrCounter [''nomad'', ''rpc'', ''cross-region'', RequestRegion info],
                    ConnPoolRPC (RequestRegion info) (Addr p) (MajorVersion p) m],
                   connPoolRPC s (RequestRegion info) (Addr p) (MajorVersion p) m)))
       \<and> (\<forall>i < length (regionServers s (RequestRegion info)).
            snd (forwardRegion s i (RequestRegion info) m) =
              connPoolRPC s (RequestRegion info) (Addr (regionServers s (RequestRegion info) ! i))
                (MajorVersion (regionServers s (RequestRegion info) ! i)) m)"
  using assms by (auto simp: forward_def forwardRegion_def Let_def split: prod.splits)

theorem forward_other_region_witness:
  "forward exServer 1 ''Job.Register'' (exInfo ''west'') []
     = Some ((True, Some (ErrMsg ''down'')), (exInfo ''west'')\<lparr>Forwarded := True\<rparr>,
             [SetForwarded, IncrCounter [''nomad'', ''rpc'', ''cross-region'', ''west''],
              ConnPoolRPC ''west'' ''B'' 1 ''Job.Register''])
   \<and> forward exServer 1 ''Job.Register'' (exInfo ''north'') []
     = Some ((True, Some ErrNoRegionPath), (exInfo ''north'')\<lparr>Forwarded := True\<rparr>,
             [SetForwarded, Log LvlWarn ''no path found to region''])"
proof -
  have 1: "RequestRegion (exInfo ''west'') \<noteq> []" "RequestRegion (exInfo ''west'') \<noteq> Region exServer"
    and 2: "RequestRegion (exInfo ''north'') \<noteq> []" "RequestRegion (exInfo ''north'') \<noteq> Region exServer"
    by (simp_all add: exInfo_def exServer_def)
  have s: "regionServers exServer (RequestRegion (exInfo ''west''))
             = [\<lparr>Addr = ''A'', MajorVersion = 1\<rparr>, \<lparr>Addr = ''B'', MajorVersion = 1\<rparr>]"
    "regionServers exServer (RequestRegion (exInfo ''north'')) = []"
    by (simp_all add: regionServers_def exInfo_def exServer_def)
  from forward_other_region [OF 1, of 1 "''Job.Register''" "[]"] s(1)
  have a: "forward exServer 1 ''Job.Register'' (exInfo ''west'') []
     = Some ((True, Some (ErrMsg ''down'')), (exInfo ''west'')\<lparr>Forwarded := True\<rparr>,
             [SetForwarded, IncrCounter [''nomad'', ''rpc'', ''cross-region'', ''west''],
              ConnPoolRPC ''west'' ''B'' 1 ''Job.Register''])"
    by (simp add: exInfo_def exServer_def)
  from forward_other_region [OF 2, of 1 "''Job.Register''" "[]"] s(2)
  have b: "forward exServer 1 ''Job.Register'' (exInfo ''north'') []
     = Some ((True, Some ErrNoRegionPath), (exInfo ''north'')\<lparr>Forwarded := True\<rparr>,
             [SetForwarded, Log LvlWarn ''no path found to region''])"
    by simp
  from a b show ?thesis by simp
qed

subsection \<open>The frame demultiplexer and the streaming carrier\<close>

text \<open>
  C1. For a connection whose first byte is read, when the server requires TLS on RPC, the
  connection context is not TLS and the byte is not the TLS tag: without the upgrade
  mode, \<open>handleConn\<close> logs a warning and closes the connection, and that is its whole
  trace, so nothing is dispatched; with the upgrade mode, \<open>handleConn\<close> is the \<open>switch\<close>
  on that byte, which for a byte that is not the TLS tag calls the handler of the tag
  (or, for an unknown byte, logs and closes) and leaves the context as it was.
\<close>

theorem handleConn_enforces_TLS:
  assumes "EnableRPC s" and "\<not> TLS rpcCtx" and "firstRead c = Inr b" and "b \<noteq> RpcTLS s"
  shows "(\<not> RPCUpgradeMode s \<longrightarrow>
            handleConn s c rpcCtx =
              ([Log LvlWarn ''non-TLS connection attempted with RequireTLS set'', ConnClose], rpcCtx))
       \<and> (RPCUpgradeMode s \<longrightarrow>
            handleConn s c rpcCtx = switchRPCType s c rpcCtx b
            \<and> switchRPCType s c rpcCtx b =
               (if b = RpcNomad s then
                  ([SetupRpcServer rpcCtx, HandleNomadConn, RemoveNodeConn rpcCtx], rpcCtx)
                else if b = RpcRaft s then
                  ([IncrCounter [''nomad'', ''rpc'', ''raft_handoff''], RaftHandoff], rpcCtx)
                else if b = RpcMultiplex s then ([HandleMultiplex rpcCtx], rpcCtx)
                else if b = RpcStreaming s then (handleStreamingConn s c, rpcCtx)
                else if b = RpcMultiplexV2 s then ([HandleMultiplexV2 rpcCtx], rpcCtx)
                else ([Log LvlError ''unrecognized RPC byte'', ConnClose], rpcCtx)))"
  using assms by (cases c) simp

theorem handleConn_enforces_TLS_witness:
  "handleConn exConnServer (exStream (Inr ''FileSystem.Logs'') None) exCtx =
     ([Log LvlWarn ''non-TLS connection attempted with RequireTLS set'', ConnClose], exCtx)
   \<and> handleConn (exConnServer\<lparr>RPCUpgradeMode := True\<rparr>) (exStream (Inr ''FileSystem.Logs'') None) exCtx =
     ([EncodeAck [], IncrCounter [''nomad'', ''streaming_rpc'', ''request''],
       InvokeHandler (Handler ''logs''), ConnClose], exCtx)"
proof -
  have c: "firstRead (exStream (Inr ''FileSystem.Logs'') None) = Inr 5"
    by (simp add: exStream_def)
  have 1: "EnableRPC exConnServer" "\<not> TLS exCtx" "5 \<noteq> RpcTLS exConnServer"
    "\<not> RPCUpgradeMode exConnServer"
    by (simp_all add: exConnServer_def exCtx_def)
  have 2: "EnableRPC (exConnServer\<lparr>RPCUpgradeMode := True\<rparr>)"
    "5 \<noteq> RpcTLS (exConnServer\<lparr>RPCUpgradeMode := True\<rparr>)"
    "RPCUpgradeMode (exConnServer\<lparr>RPCUpgradeMode := True\<rparr>)"
    by (simp_all add: exConnServer_def)
  from handleConn_enforces_TLS [OF 1(1) 1(2) c 1(3)] 1(4)
  have a: "handleConn exConnServer (exStream (Inr ''FileSystem.Logs'') None) exCtx =
     ([Log LvlWarn ''non-TLS connection attempted with RequireTLS set'', ConnClose], exCtx)"
    by blast
  from handleConn_enforces_TLS [OF 2(1) 1(2) c 2(2)] 2(3)
  have "handleConn (exConnServer\<lparr>RPCUpgradeMode := True\<rparr>) (exStream (Inr ''FileSystem.Logs'') None) exCtx
      = switchRPCType (exConnServer\<lparr>RPCUpgradeMode := True\<rparr>) (exStream (Inr ''FileSystem.Logs'') None) exCtx 5"
    by blast
  then have b: "handleConn (exConnServer\<lparr>RPCUpgradeMode := True\<rparr>) (exStream (Inr ''FileSystem.Logs'') None) exCtx =
     ([EncodeAck [], IncrCounter [''nomad'', ''streaming_rpc'', ''request''],
       InvokeHandler (Handler ''logs''), ConnClose], exCtx)"
    by (simp add: exStream_def exConnServer_def handleStreamingConn_def GetHandler_def)
  from a b show ?thesis by simp
qed

lemma GetHandler_error_nonempty: "GetHandler reg method = Inl e \<Longrightarrow> e \<noteq> []"
  by (auto simp: GetHandler_def split: option.splits)

text \<open>
  C2, amended. When the header does not decode, \<open>handleStreamingConn\<close> encodes no
  acknowledgement, invokes no handler and closes the connection. When the header
  decodes to a method, it encodes exactly one acknowledgement, whose error text is empty
  exactly when the registry has a handler for the method, and it closes the connection
  last on every path. When the error text is not empty no handler is invoked; when
  writing the acknowledgement fails no handler is invoked; when the error text is empty
  and the acknowledgement was written, the handler of the method is invoked once,
  after the acknowledgement.
\<close>

theorem handleStreamingConn_acknowledgement:
  "(\<forall>err. decodeHeader c = Inl err \<longrightarrow>
      acks (handleStreamingConn s c) = [] \<and> invokes (handleStreamingConn s c) = []
      \<and> last (handleStreamingConn s c) = ConnClose)
   \<and> (\<forall>method. decodeHeader c = Inr method \<longrightarrow>
        acks (handleStreamingConn s c) = [EncodeAck (ackErrorOf s method)]
        \<and> (ackErrorOf s method = []) = (streamingRpcs s method \<noteq> None)
        \<and> last (handleStreamingConn s c) = ConnClose
        \<and> (ackErrorOf s method \<noteq> [] \<longrightarrow> invokes (handleStreamingConn s c) = [])
        \<and> (encodeAck c \<noteq> None \<longrightarrow> invokes (handleStreamingConn s c) = [])
        \<and> (ackErrorOf s method = [] \<and> encodeAck c = None \<longrightarrow>
             (\<exists>h. streamingRpcs s method = Some h
                \<and> handleStreamingConn s c =
                    [EncodeAck [], IncrCounter [''nomad'', ''streaming_rpc'', ''request''],
                     InvokeHandler h, ConnClose])))"
  by (auto simp: handleStreamingConn_def acks_def invokes_def ackErrorOf_def GetHandler_def Let_def
           split: sum.splits option.splits)

theorem handleStreamingConn_acknowledgement_witness:
  "acks (handleStreamingConn exConnServer (exStream (Inr ''Nope'') None)) =
     [EncodeAck ''unknown rpc method: Nope'']
   \<and> invokes (handleStreamingConn exConnServer (exStream (Inr ''Nope'') None)) = []
   \<and> last (handleStreamingConn exConnServer (exStream (Inr ''Nope'') None)) = ConnClose
   \<and> handleStreamingConn exConnServer (exStream (Inr ''FileSystem.Logs'') None) =
       [EncodeAck [], IncrCounter [''nomad'', ''streaming_rpc'', ''request''],
        InvokeHandler (Handler ''logs''), ConnClose]
   \<and> acks (handleStreamingConn exConnServer (exStream (Inl EOF) None)) = []
   \<and> invokes (handleStreamingConn exConnServer
        (exStream (Inr ''FileSystem.Logs'') (Some (IOError ''broken pipe'')))) = []"
proof -
  have d1: "decodeHeader (exStream (Inr ''Nope'') None) = Inr ''Nope''"
    and d2: "decodeHeader (exStream (Inr ''FileSystem.Logs'') None) = Inr ''FileSystem.Logs''"
    and e: "encodeAck (exStream (Inr ''FileSystem.Logs'') None) = None"
    and d3: "decodeHeader (exStream (Inl EOF) None) = Inl EOF"
    and d4: "decodeHeader (exStream (Inr ''FileSystem.Logs'') (Some (IOError ''broken pipe'')))
               = Inr ''FileSystem.Logs''"
    and e4: "encodeAck (exStream (Inr ''FileSystem.Logs'') (Some (IOError ''broken pipe''))) \<noteq> None"
    by (simp_all add: exStream_def)
  have a1: "ackErrorOf exConnServer ''Nope'' = ''unknown rpc method: Nope''"
    and a2: "ackErrorOf exConnServer ''FileSystem.Logs'' = []"
    and r: "streamingRpcs exConnServer ''FileSystem.Logs'' = Some (Handler ''logs'')"
    by (simp_all add: ackErrorOf_def GetHandler_def exConnServer_def)
  from handleStreamingConn_acknowledgement [of "exStream (Inr ''Nope'') None" exConnServer] d1 a1
  have 1: "acks (handleStreamingConn exConnServer (exStream (Inr ''Nope'') None)) =
     [EncodeAck ''unknown rpc method: Nope'']
   \<and> invokes (handleStreamingConn exConnServer (exStream (Inr ''Nope'') None)) = []
   \<and> last (handleStreamingConn exConnServer (exStream (Inr ''Nope'') None)) = ConnClose"
    by simp
  from handleStreamingConn_acknowledgement [of "exStream (Inr ''FileSystem.Logs'') None" exConnServer]
    d2 a2 e r
  have 2: "handleStreamingConn exConnServer (exStream (Inr ''FileSystem.Logs'') None) =
       [EncodeAck [], IncrCounter [''nomad'', ''streaming_rpc'', ''request''],
        InvokeHandler (Handler ''logs''), ConnClose]"
    by simp
  from handleStreamingConn_acknowledgement [of "exStream (Inl EOF) None" exConnServer] d3
  have 3: "acks (handleStreamingConn exConnServer (exStream (Inl EOF) None)) = []"
    by simp
  from handleStreamingConn_acknowledgement
         [of "exStream (Inr ''FileSystem.Logs'') (Some (IOError ''broken pipe''))" exConnServer] d4 e4
  have 4: "invokes (handleStreamingConn exConnServer
        (exStream (Inr ''FileSystem.Logs'') (Some (IOError ''broken pipe'')))) = []"
    by simp
  from 1 2 3 4 show ?thesis by simp
qed

text \<open>
  C2 as stated fails on the code. A connection whose header read ends with EOF gets no
  acknowledgement at all. A connection whose method has a handler, so that the error text
  is empty, but on which writing the acknowledgement fails, is closed without the
  handler being invoked.
\<close>

theorem handleStreamingConn_ack_counterexample:
  "handleStreamingConn exConnServer (exStream (Inl EOF) None) = [ConnClose]
   \<and> length (acks (handleStreamingConn exConnServer (exStream (Inl EOF) None))) \<noteq> 1
   \<and> handleStreamingConn exConnServer
        (exStream (Inr ''FileSystem.Logs'') (Some (IOError ''broken pipe'')))
       = [EncodeAck [], ConnClose, ConnClose]
   \<and> ackErrorOf exConnServer ''FileSystem.Logs'' = []
   \<and> invokes (handleStreamingConn exConnServer
        (exStream (Inr ''FileSystem.Logs'') (Some (IOError ''broken pipe'')))) = []"
  by (simp add: handleStreamingConn_def exStream_def exConnServer_def acks_def invokes_def
        ackErrorOf_def GetHandler_def loggedError_def)

subsection \<open>The blocking-query engine\<close>

lemma afterQ_Nil: "afterQ [] r = r"
  by (simp add: afterQ_def)

lemma map_option_afterQ:
  "map_option (afterQ a) (map_option (afterQ b) x) = map_option (afterQ (a @ b)) x"
  by (cases x) (simp_all add: afterQ_def)

lemma runQuery_nonblocking:
  "MinQueryIndex qo = 0 \<Longrightarrow>
   runQuery qo meta (w # rest) =
     Some (fst (run w (setQueryMeta w meta)), fst (snd (run w (setQueryMeta w meta))),
           [SetQueryMeta, IncrCounter [''nomad'', ''rpc'', ''query''], RunQuery None])"
  by (simp add: Let_def split: prod.splits)

lemma runs_blockedTrace: "runs (blockedTrace w meta) = 1"
  by (simp add: runs_def blockedTrace_def)

lemma runQuery_woken_step:
  assumes "0 < MinQueryIndex qo"
    and "fst (run w (setQueryMeta w meta)) = None"
    and "Index (fst (snd (run w (setQueryMeta w meta)))) \<le> MinQueryIndex qo"
    and "watchCtx w = None"
  shows "runQuery qo meta (w # rest) =
           map_option (afterQ (blockedTrace w meta)) (runQuery qo (metaAfter meta [w]) rest)"
  using assms by (auto simp: Let_def blockedTrace_def chansOf_def split: prod.splits)

lemma runQuery_deadline_step:
  assumes "0 < MinQueryIndex qo"
    and "fst (run w (setQueryMeta w meta)) = None"
    and "Index (fst (snd (run w (setQueryMeta w meta)))) \<le> MinQueryIndex qo"
    and "watchCtx w \<noteq> None"
  shows "runQuery qo meta (w # rest) = Some (None, metaAfter meta [w], blockedTrace w meta)"
  using assms by (auto simp: Let_def blockedTrace_def chansOf_def split: prod.splits)

lemma metaAfter_append: "metaAfter m (xs @ ys) = metaAfter (metaAfter m xs) ys"
  by (induction xs arbitrary: m) simp_all

lemma runs_append: "runs (a @ b) = runs a + runs b"
  by (simp add: runs_def)

lemma runQuery_deadline:
  assumes "0 < MinQueryIndex qo"
    and "\<forall>p\<in>set (pre @ [w]). \<forall>m. fst (run p m) = None \<and> Index (fst (snd (run p m))) \<le> MinQueryIndex qo"
    and "\<forall>p\<in>set pre. watchCtx p = None"
    and "watchCtx w \<noteq> None"
  shows "\<exists>tr. runs tr = Suc (length pre) \<and>
     runQuery qo meta (pre @ w # post) = Some (None, metaAfter meta (pre @ [w]), tr)"
  using assms(2,3)
proof (induction pre arbitrary: meta)
  case Nil
  then have "runQuery qo meta (w # post) = Some (None, metaAfter meta [w], blockedTrace w meta)"
    using assms(1,4) by (intro runQuery_deadline_step) simp_all
  then show ?case using runs_blockedTrace [of w meta] by auto
next
  case (Cons p pre)
  have "runQuery qo meta (p # pre @ w # post) =
       map_option (afterQ (blockedTrace p meta)) (runQuery qo (metaAfter meta [p]) (pre @ w # post))"
    using assms(1) Cons.prems by (intro runQuery_woken_step) simp_all
  moreover from Cons.IH [of "metaAfter meta [p]"] Cons.prems
  obtain tr2 where tr2: "runs tr2 = Suc (length pre)"
    "runQuery qo (metaAfter meta [p]) (pre @ w # post) =
       Some (None, metaAfter (metaAfter meta [p]) (pre @ [w]), tr2)"
    by auto
  ultimately have "runQuery qo meta ((p # pre) @ w # post)
       = Some (None, metaAfter meta ((p # pre) @ [w]), blockedTrace p meta @ tr2)"
    by (simp add: afterQ_def del: runQuery.simps)
  moreover have "runs (blockedTrace p meta @ tr2) = Suc (length (p # pre))"
    using tr2(1) by (simp add: runs_append runs_blockedTrace)
  ultimately show ?case by blast
qed

lemma metaAfter_last_Index:
  "\<forall>m. Index (fst (snd (run w m))) \<le> n \<Longrightarrow> Index (metaAfter meta (pre @ [w])) \<le> n"
  by (simp add: metaAfter_append)

lemma restrictQueryTime_MaxQueryTime:
  "MaxQueryTime (restrictQueryTime jf draw qo) =
     clampedWait (MaxQueryTime qo) + RandomStagger (go_div (clampedWait (MaxQueryTime qo)) jf) draw"
  by (simp add: restrictQueryTime_def clampedWait_def Let_def)

lemma restrictQueryTime_MinQueryIndex:
  "MinQueryIndex (restrictQueryTime jf draw qo) = MinQueryIndex qo"
  by (simp add: restrictQueryTime_def Let_def)

lemma RandomStagger_nonneg: "0 \<le> RandomStagger intv draw"
  by (simp add: RandomStagger_def)

lemma RandomStagger_less: "0 < intv \<Longrightarrow> RandomStagger intv draw < intv"
  by (simp add: RandomStagger_def)

lemma clampedWait_bounds: "0 < clampedWait d \<and> clampedWait d \<le> maxQueryTime"
  by (simp add: clampedWait_def maxQueryTime_def defaultQueryTime_def Second_def)

lemma runs_blocking_trace: "runs ([ContextWithTimeout d] @ tr @ [CancelContext]) = runs tr"
  by (simp add: runs_def)

text \<open>
  C4. A blocking query (minimum index above 0) whose query function always succeeds and
  never yields an index above the minimum index, and whose wait on the watch set is woken
  by a channel in the rounds \<open>pre\<close> and ended by the deadline in the round \<open>w\<close>, returns
  the nil error. The query meta it leaves is the one of the last run, whose index does
  not exceed the minimum index; the query function ran once per round.
\<close>

theorem blockingRPC_deadline_returns_nil:
  assumes "0 < MinQueryIndex qo"
    and "rounds = pre @ w # post"
    and "\<forall>p\<in>set (pre @ [w]). \<forall>m. fst (run p m) = None
            \<and> Index (fst (snd (run p m))) \<le> MinQueryIndex qo"
    and "\<forall>p\<in>set pre. watchCtx p = None"
    and "watchCtx w \<noteq> None"
  shows "\<exists>tr. blockingRPC jf draw qo meta rounds
                  = Some (None, restrictQueryTime jf draw qo, metaAfter meta (pre @ [w]), tr)
           \<and> Index (metaAfter meta (pre @ [w])) \<le> MinQueryIndex qo
           \<and> runs tr = Suc (length pre)"
proof -
  let ?qo = "restrictQueryTime jf draw qo"
  have m: "MinQueryIndex ?qo = MinQueryIndex qo"
    by (rule restrictQueryTime_MinQueryIndex)
  from runQuery_deadline [of ?qo pre w meta post] assms(1,3,4,5) m
  obtain tr where tr: "runs tr = Suc (length pre)"
    "runQuery ?qo meta (pre @ w # post) = Some (None, metaAfter meta (pre @ [w]), tr)"
    by auto
  have "blockingRPC jf draw qo meta rounds =
          Some (None, ?qo, metaAfter meta (pre @ [w]),
                [ContextWithTimeout (MaxQueryTime ?qo)] @ tr @ [CancelContext])"
    using assms(1,2) tr(2) by (simp add: blockingRPC_def Let_def del: runQuery.simps)
  moreover have "runs ([ContextWithTimeout (MaxQueryTime ?qo)] @ tr @ [CancelContext]) = Suc (length pre)"
    using tr(1) by (simp only: runs_blocking_trace)
  moreover have "Index (metaAfter meta (pre @ [w])) \<le> MinQueryIndex qo"
    using assms(3) by (intro metaAfter_last_Index) simp
  ultimately show ?thesis by blast
qed

theorem blockingRPC_deadline_returns_nil_witness:
  "fst (the (blockingRPC 16 35 \<lparr>MinQueryIndex = 100, MaxQueryTime = 200\<rparr> exMeta
     [exQueryRound 100 None, exQueryRound 100 (Some (ErrMsg ''context deadline exceeded''))]))
     = None
   \<and> fst (snd (snd (the (blockingRPC 16 35 \<lparr>MinQueryIndex = 100, MaxQueryTime = 200\<rparr> exMeta
     [exQueryRound 100 None, exQueryRound 100 (Some (ErrMsg ''context deadline exceeded''))]))))
     = \<lparr>Index = 100, LastContact = 0, KnownLeader = True\<rparr>"
proof -
  let ?qo = "\<lparr>MinQueryIndex = 100, MaxQueryTime = 200\<rparr>"
  let ?p = "exQueryRound 100 None"
  let ?w = "exQueryRound 100 (Some (ErrMsg ''context deadline exceeded''))"
  have 1: "0 < MinQueryIndex ?qo" by simp
  have 2: "[?p, ?w] = [?p] @ ?w # []" by simp
  have 3: "\<forall>p\<in>set ([?p] @ [?w]). \<forall>m. fst (run p m) = None
            \<and> Index (fst (snd (run p m))) \<le> MinQueryIndex ?qo"
    by (simp add: exQueryRound_def)
  have 4: "\<forall>p\<in>set [?p]. watchCtx p = None" by (simp add: exQueryRound_def)
  have 5: "watchCtx ?w \<noteq> None" by (simp add: exQueryRound_def)
  from blockingRPC_deadline_returns_nil [OF 1 2 3 4 5, of 16 35 exMeta]
  obtain tr where e: "blockingRPC 16 35 ?qo exMeta [?p, ?w]
          = Some (None, restrictQueryTime 16 35 ?qo, metaAfter exMeta ([?p] @ [?w]), tr)"
    by blast
  have m: "metaAfter exMeta ([?p] @ [?w]) = \<lparr>Index = 100, LastContact = 0, KnownLeader = True\<rparr>"
    by (simp add: exQueryRound_def exMeta_def setQueryMeta_def)
  from e m show ?thesis by simp
qed

text \<open>
  C5. For a query with minimum index 0, \<open>blockingRPC\<close> takes one round: it invokes the
  query function once, with the nil watch set, creates no deadline context, never waits
  on a watch set and never re-runs the query, whatever the query function returns and
  whatever the later rounds would answer. It returns the error of the query function
  and leaves the query options as they were.
\<close>

theorem blockingRPC_min_index_zero_runs_once:
  assumes "MinQueryIndex qo = 0"
  shows "blockingRPC jf draw qo meta (w # rest) =
           Some (fst (run w (setQueryMeta w meta)), qo, fst (snd (run w (setQueryMeta w meta))),
                 [SetQueryMeta, IncrCounter [''nomad'', ''rpc'', ''query''], RunQuery None])
       \<and> runs (snd (snd (snd (the (blockingRPC jf draw qo meta (w # rest)))))) = 1"
  using assms by (simp add: blockingRPC_def runQuery_nonblocking runs_def del: runQuery.simps)

theorem blockingRPC_min_index_zero_runs_once_witness:
  "blockingRPC 16 35 \<lparr>MinQueryIndex = 0, MaxQueryTime = 200\<rparr> exMeta
     [exQueryRound 100 None, exQueryRound 150 None]
   = Some (None, \<lparr>MinQueryIndex = 0, MaxQueryTime = 200\<rparr>,
           \<lparr>Index = 100, LastContact = 0, KnownLeader = True\<rparr>,
           [SetQueryMeta, IncrCounter [''nomad'', ''rpc'', ''query''], RunQuery None])"
proof -
  have "MinQueryIndex \<lparr>MinQueryIndex = 0, MaxQueryTime = 200\<rparr> = 0" by simp
  from blockingRPC_min_index_zero_runs_once [OF this, of 16 35 exMeta "exQueryRound 100 None"
      "[exQueryRound 150 None]"]
  show ?thesis by (simp add: exQueryRound_def exMeta_def setQueryMeta_def)
qed

lemma runQuery_no_context:
  "runQuery qo meta rounds = Some r \<Longrightarrow>
   filter (\<lambda>e. case e of ContextWithTimeout d \<Rightarrow> True | _ \<Rightarrow> False) (snd (snd r)) = []"
proof (induction rounds arbitrary: meta r)
  case Nil
  then show ?case by simp
next
  case (Cons w rest)
  then show ?case
    by (auto simp: Let_def afterQ_def split: prod.splits if_splits)
qed

text \<open>
  C6. The effective maximum wait that lines 641 to 649 compute is the requested maximum
  wait, set to \<open>maxQueryTime\<close> when it exceeds it and to \<open>defaultQueryTime\<close> when it is
  zero or negative, plus a jitter. The jitter is not negative and, when the clamped wait
  divided by the jitter fraction is positive, lies below that quotient. So the
  effective wait never exceeds \<open>maxQueryTime\<close> plus the jitter. In every completed call
  for a blocking query (minimum index above 0) the deadline context is created once,
  first in the trace, with that effective wait.
\<close>

theorem blockingRPC_effective_wait:
  defines "clamped \<equiv> \<lambda>qo. clampedWait (MaxQueryTime qo)"
    and "jitter \<equiv> \<lambda>jf draw qo. RandomStagger (go_div (clampedWait (MaxQueryTime qo)) jf) draw"
  shows "MaxQueryTime (restrictQueryTime jf draw qo) = clamped qo + jitter jf draw qo
       \<and> (maxQueryTime < MaxQueryTime qo \<longrightarrow> clamped qo = maxQueryTime)
       \<and> (MaxQueryTime qo \<le> 0 \<longrightarrow> clamped qo = defaultQueryTime)
       \<and> (0 < MaxQueryTime qo \<and> MaxQueryTime qo \<le> maxQueryTime \<longrightarrow> clamped qo = MaxQueryTime qo)
       \<and> 0 \<le> jitter jf draw qo
       \<and> (0 < go_div (clamped qo) jf \<longrightarrow> jitter jf draw qo < go_div (clamped qo) jf)
       \<and> clamped qo + jitter jf draw qo \<le> maxQueryTime + jitter jf draw qo
       \<and> (\<forall>err qo' meta' tr.
             0 < MinQueryIndex qo \<and> blockingRPC jf draw qo meta rounds = Some (err, qo', meta', tr) \<longrightarrow>
             hd tr = ContextWithTimeout (clamped qo + jitter jf draw qo)
             \<and> filter (\<lambda>e. case e of ContextWithTimeout d \<Rightarrow> True | _ \<Rightarrow> False) tr
                 = [ContextWithTimeout (clamped qo + jitter jf draw qo)])"
proof -
  let ?qo = "restrictQueryTime jf draw qo"
  have d: "MaxQueryTime ?qo = clamped qo + jitter jf draw qo"
    by (simp add: restrictQueryTime_MaxQueryTime clamped_def jitter_def)
  have 3: "0 \<le> jitter jf draw qo" by (simp add: RandomStagger_nonneg jitter_def)
  have 4: "0 < go_div (clamped qo) jf \<longrightarrow> jitter jf draw qo < go_div (clamped qo) jf"
    by (simp add: RandomStagger_less jitter_def clamped_def)
  have 5: "clamped qo + jitter jf draw qo \<le> maxQueryTime + jitter jf draw qo"
    using clampedWait_bounds [of "MaxQueryTime qo"] by (simp add: clamped_def)
  have 6: "(maxQueryTime < MaxQueryTime qo \<longrightarrow> clamped qo = maxQueryTime)
       \<and> (MaxQueryTime qo \<le> 0 \<longrightarrow> clamped qo = defaultQueryTime)
       \<and> (0 < MaxQueryTime qo \<and> MaxQueryTime qo \<le> maxQueryTime \<longrightarrow> clamped qo = MaxQueryTime qo)"
    by (auto simp: clamped_def clampedWait_def maxQueryTime_def defaultQueryTime_def Second_def)
  have 7: "hd tr = ContextWithTimeout (clamped qo + jitter jf draw qo)
             \<and> filter (\<lambda>e. case e of ContextWithTimeout d \<Rightarrow> True | _ \<Rightarrow> False) tr
                 = [ContextWithTimeout (clamped qo + jitter jf draw qo)]"
    if "0 < MinQueryIndex qo \<and> blockingRPC jf draw qo meta rounds = Some (err, qo', meta', tr)"
    for err qo' meta' tr
  proof -
    from that obtain r where r: "runQuery ?qo meta rounds = Some r"
      and tr: "tr = [ContextWithTimeout (MaxQueryTime ?qo)] @ snd (snd r) @ [CancelContext]"
      by (auto simp: blockingRPC_def Let_def)
    have "filter (\<lambda>e. case e of ContextWithTimeout d \<Rightarrow> True | _ \<Rightarrow> False) (snd (snd r)) = []"
      using r by (rule runQuery_no_context)
    then show ?thesis using tr d by simp
  qed
  from d 3 4 5 6 7 show ?thesis by blast
qed

theorem blockingRPC_effective_wait_witness:
  "hd (snd (snd (snd (the (blockingRPC 16 35 \<lparr>MinQueryIndex = 100, MaxQueryTime = 10 * maxQueryTime\<rparr>
        exMeta [exQueryRound 150 None]))))) = ContextWithTimeout (maxQueryTime + 35)
   \<and> hd (snd (snd (snd (the (blockingRPC 16 35 \<lparr>MinQueryIndex = 100, MaxQueryTime = 0\<rparr>
        exMeta [exQueryRound 150 None]))))) = ContextWithTimeout (defaultQueryTime + 35)
   \<and> hd (snd (snd (snd (the (blockingRPC 16 35 \<lparr>MinQueryIndex = 100, MaxQueryTime = 200\<rparr>
        exMeta [exQueryRound 150 None]))))) = ContextWithTimeout 211
   \<and> (35::int) < go_div maxQueryTime 16 \<and> (11::int) < go_div 200 16"
proof -
  let ?qa = "\<lparr>MinQueryIndex = 100, MaxQueryTime = 10 * maxQueryTime\<rparr>"
  let ?qb = "\<lparr>MinQueryIndex = 100, MaxQueryTime = 0\<rparr>"
  let ?qc = "\<lparr>MinQueryIndex = 100, MaxQueryTime = 200\<rparr>"
  let ?a = "blockingRPC 16 35 ?qa exMeta [exQueryRound 150 None]"
  let ?b = "blockingRPC 16 35 ?qb exMeta [exQueryRound 150 None]"
  let ?c = "blockingRPC 16 35 ?qc exMeta [exQueryRound 150 None]"
  have j: "RandomStagger (go_div maxQueryTime 16) 35 = 35"
    "RandomStagger (go_div defaultQueryTime 16) 35 = 35" "(35::int) < go_div maxQueryTime 16"
    "RandomStagger (go_div 200 16) 35 = 11" "(11::int) < go_div 200 16"
    by (simp_all add: RandomStagger_def go_div_def maxQueryTime_def defaultQueryTime_def Second_def)
  have c: "clampedWait (10 * maxQueryTime) = maxQueryTime" "clampedWait 0 = defaultQueryTime"
    "clampedWait 200 = 200"
    by (simp_all add: clampedWait_def maxQueryTime_def Second_def)
  have m: "0 < MinQueryIndex ?qa" "0 < MinQueryIndex ?qb" "0 < MinQueryIndex ?qc"
    by simp_all
  have "?a \<noteq> None"
    by (simp add: blockingRPC_def Let_def exQueryRound_def restrictQueryTime_MinQueryIndex)
  then obtain e1 q1 m1 t1 where a: "?a = Some (e1, q1, m1, t1)"
    by (cases ?a) auto
  have "?b \<noteq> None"
    by (simp add: blockingRPC_def Let_def exQueryRound_def restrictQueryTime_MinQueryIndex)
  then obtain e2 q2 m2 t2 where b: "?b = Some (e2, q2, m2, t2)"
    by (cases ?b) auto
  have "?c \<noteq> None"
    by (simp add: blockingRPC_def Let_def exQueryRound_def restrictQueryTime_MinQueryIndex)
  then obtain e3 q3 m3 t3 where c3: "?c = Some (e3, q3, m3, t3)"
    by (cases ?c) auto
  from blockingRPC_effective_wait [of 16 35 ?qa exMeta "[exQueryRound 150 None]"] m(1) a
  have "hd t1 = ContextWithTimeout (clampedWait (10 * maxQueryTime)
            + RandomStagger (go_div (clampedWait (10 * maxQueryTime)) 16) 35)"
    by simp
  then have 1: "hd t1 = ContextWithTimeout (maxQueryTime + 35)"
    using c j by simp
  from blockingRPC_effective_wait [of 16 35 ?qb exMeta "[exQueryRound 150 None]"] m(2) b
  have "hd t2 = ContextWithTimeout (clampedWait 0 + RandomStagger (go_div (clampedWait 0) 16) 35)"
    by simp
  then have 2: "hd t2 = ContextWithTimeout (defaultQueryTime + 35)"
    using c j by simp
  from blockingRPC_effective_wait [of 16 35 ?qc exMeta "[exQueryRound 150 None]"] m(3) c3
  have "hd t3 = ContextWithTimeout (clampedWait 200 + RandomStagger (go_div (clampedWait 200) 16) 35)"
    by simp
  then have 3: "hd t3 = ContextWithTimeout 211"
    using c j by simp
  from 1 2 3 a b c3 j(3,5) show ?thesis by simp
qed



end
